theory Spec2Isabelle
  imports Complex_Main "HOL-Library.Sublist"
begin

section \<open>Values of the host language\<close>

text \<open>
  The service is TypeScript running in a browser.  Its asynchronous functions return
  promises; a promise is modelled by the way it ends: resolved with a value, rejected
  with an error, or never settled.  Errors are values of one datatype: the
  \<^verbatim>\<open>Error\<close> objects the source creates (with their message), the exceptions
  the host raises when the source calls a constructor that the host lacks or stops an
  inactive recorder, and the event a failing \<^verbatim>\<open>FileReader\<close> hands to
  \<^verbatim>\<open>reader.onerror\<close>.
\<close>

datatype js_error =
    Error string
  | TypeError
  | ReferenceError
  | InvalidStateError
  | ReaderError

datatype 'a outcome = Resolved 'a | Rejected js_error | Pending

text \<open>
  Strings are lists of code units.  \<^verbatim>\<open>s.startsWith(p)\<close> and
  \<^verbatim>\<open>s.includes(p)\<close> are the two string tests the source uses.
\<close>

fun startsWith :: "string \<Rightarrow> string \<Rightarrow> bool" where
  "startsWith s [] = True"
| "startsWith [] (p # ps) = False"
| "startsWith (c # cs) (p # ps) = (c = p \<and> startsWith cs ps)"

fun includes_str :: "string \<Rightarrow> string \<Rightarrow> bool" where
  "includes_str [] p = (p = [])"
| "includes_str (c # cs) p = (startsWith (c # cs) p \<or> includes_str cs p)"

section \<open>The remote providers\<close>

text \<open>
  \<^verbatim>\<open>options\<close> is the optional third argument of
  \<^verbatim>\<open>synthesizeSpeech\<close>; \<^verbatim>\<open>request\<close> is the body both remote
  providers receive.  A field that is \<^verbatim>\<open>undefined\<close> is \<open>None\<close>.
\<close>

record options =
  opt_stability :: "real option"
  opt_similarityBoost :: "real option"
  opt_style :: "real option"
  opt_speakerBoost :: "bool option"

record request =
  body_text :: string
  body_voice_id :: "string option"
  body_stability :: "real option"
  body_similarity_boost :: "real option"
  body_style :: "real option"
  body_use_speaker_boost :: "bool option"

text \<open>
  The payload of a provider's answer: the \<^verbatim>\<open>success\<close> flag (its
  truthiness) and the \<^verbatim>\<open>audio\<close> field (\<open>None\<close> when absent).
\<close>

datatype response = Response (success: bool) (audio: "string option")

text \<open>
  The remote side.  \<open>api_post\<close> is \<^verbatim>\<open>api.post('/agent/voice/synthesize', body)\<close>
  and \<open>edge_fetch\<close> is the \<^verbatim>\<open>fetch\<close> of the edge function followed by
  \<^verbatim>\<open>response.json()\<close>, given the URL, the Authorization header and the body;
  \<open>None\<close> means that the call throws or rejects (every call is taken to end one way
  or the other).  The two environment variables are \<open>None\<close> when they are not set.
\<close>

record backend =
  api_post :: "request \<Rightarrow> response option"
  VITE_SUPABASE_URL :: "string option"
  VITE_SUPABASE_ANON_KEY :: "string option"
  edge_fetch :: "string \<Rightarrow> string \<Rightarrow> request \<Rightarrow> response option"

text \<open>The calls \<^verbatim>\<open>synthesizeSpeech\<close> makes, in the order it makes them.\<close>

datatype call =
    ApiPost request
  | EdgeFetch string string request
  | Browser string

section \<open>The browser\<close>

text \<open>
  What the host offers and how it behaves.  The flags say which globals exist.
  \<open>stop_inactive_throws\<close> says whether \<^verbatim>\<open>MediaRecorder.stop()\<close> on an
  inactive recorder raises \<^verbatim>\<open>InvalidStateError\<close> (as earlier versions of the
  recording interface do) or does nothing.  \<open>reader_fails\<close> says whether the
  \<^verbatim>\<open>FileReader\<close> ends with an error event.  \<open>base64\<close> is the host's encoder
  and \<open>recorder_mimeType\<close> the type of the blobs the recorder emits.  \<open>timeline\<close>
  lists, in the order they happen and each with its time, what the host does during one
  capture: audio reaching the recorder, and the end of the utterance (which a host may
  never report).

  Two things the host does later than the call that asks for them: \<open>stop_latency\<close> is
  the time between \<^verbatim>\<open>mediaRecorder.stop()\<close> and the task in which the recorder
  fires \<^verbatim>\<open>dataavailable\<close> and \<^verbatim>\<open>stop\<close>, and \<open>reader_latency\<close> the
  time between \<^verbatim>\<open>reader.readAsDataURL(blob)\<close> and the reader's
  \<^verbatim>\<open>loadend\<close> or \<^verbatim>\<open>error\<close>.  \<open>timer_overflow\<close> is the delay the host
  uses for a timer whose requested delay does not fit a signed 32-bit integer.
\<close>

type_synonym bytes = "nat list"

record blob =
  blob_type :: string
  blob_bytes :: bytes

datatype host_event = Audio bytes | UtteranceEnd

record host =
  has_speechSynthesis :: bool
  has_AudioContext :: bool
  has_webkitAudioContext :: bool
  has_MediaRecorder :: bool
  has_SpeechRecognition :: bool
  has_webkitSpeechRecognition :: bool
  recorder_mimeType :: string
  stop_inactive_throws :: bool
  reader_fails :: bool
  base64 :: "bytes \<Rightarrow> string"
  timeline :: "(nat \<times> host_event) list"
  stop_latency :: nat
  reader_latency :: nat
  timer_overflow :: "nat \<Rightarrow> nat"

text \<open>
  \<^verbatim>\<open>setTimeout(callback, n)\<close> takes its delay as a signed 32-bit integer.  A
  delay below \<open>2 ^ 31\<close> is used as it is; for a larger one the host decides.
  \<open>long_delay\<close> is what the HTML standard prescribes there: the number is wrapped
  modulo \<open>2 ^ 32\<close>, and a result that is negative as a signed integer becomes 0.
\<close>

definition setTimeout_delay :: "host \<Rightarrow> nat \<Rightarrow> nat" where
  "setTimeout_delay h n = (if n < 2 ^ 31 then n else timer_overflow h n)"

definition long_delay :: "nat \<Rightarrow> nat" where
  "long_delay n = (let m = n mod 2 ^ 32 in if m < 2 ^ 31 then m else 0)"

subsection \<open>The capture session of \<^verbatim>\<open>synthesizeWithBrowser\<close>\<close>

datatype recording_state = Inactive | Recording | Paused

text \<open>
  The objects one call of \<^verbatim>\<open>synthesizeWithBrowser\<close> creates: the recorder (its
  \<^verbatim>\<open>state\<close>, the data it has gathered and not yet delivered), the array
  \<^verbatim>\<open>chunks\<close>, the audio context, and the promise (\<open>settled\<close> holds the first
  settlement and the time of the task that made it).  The counters record how often
  \<^verbatim>\<open>mediaRecorder.stop()\<close> and \<^verbatim>\<open>audioContext.close()\<close> were called
  and how often the recorder fired its \<^verbatim>\<open>stop\<close> event; \<open>uncaught\<close>
  collects the exceptions that escaped an event handler.  \<open>stop_task\<close> is the task a
  call of \<^verbatim>\<open>stop()\<close> has queued and that has not run yet, with the time it is
  due; \<open>reader_task\<close> is the read a \<^verbatim>\<open>FileReader\<close> has begun and not
  finished, with the time it ends and the blob it reads.
\<close>

record capture =
  rec_state :: recording_state
  gathered :: bytes
  chunks :: "blob list"
  context_closed :: bool
  stop_calls :: nat
  close_calls :: nat
  stop_events :: nat
  settled :: "(string outcome \<times> nat) option"
  uncaught :: "js_error list"
  stop_task :: "nat option"
  reader_task :: "(nat \<times> blob) option"

text \<open>\<^verbatim>\<open>resolve\<close> and \<^verbatim>\<open>reject\<close>: only the first call settles the promise.\<close>

definition promise_settle :: "string outcome \<Rightarrow> nat \<Rightarrow> capture \<Rightarrow> capture" where
  "promise_settle r t s =
     s\<lparr>settled := (case settled s of None \<Rightarrow> Some (r, t) | Some x \<Rightarrow> Some x)\<rparr>"

text \<open>
  \<^verbatim>\<open>reader.readAsDataURL(blob)\<close> gives the blob's type and then its bytes in
  base64.  \<open>fileReader_result\<close> is what the two handlers of the reader make of one
  read: \<^verbatim>\<open>reader.onloadend\<close> resolves with the result, and
  \<^verbatim>\<open>reader.onerror = reject\<close> rejects.  (A failing reader fires
  \<^verbatim>\<open>error\<close> before \<^verbatim>\<open>loadend\<close>, so the rejection comes first and
  the later call of \<^verbatim>\<open>resolve\<close> reaches a settled promise.)
  \<open>fileReader_task\<close> is the task in which the read ends and those handlers run.
\<close>

definition readAsDataURL :: "host \<Rightarrow> blob \<Rightarrow> string" where
  "readAsDataURL h b = ''data:'' @ blob_type b @ '';base64,'' @ base64 h (blob_bytes b)"

definition fileReader_result :: "host \<Rightarrow> blob \<Rightarrow> string outcome" where
  "fileReader_result h b =
     (if reader_fails h then Rejected ReaderError else Resolved (readAsDataURL h b))"

definition fileReader_task :: "host \<Rightarrow> nat \<Rightarrow> blob \<Rightarrow> capture \<Rightarrow> capture" where
  "fileReader_task h t b s = promise_settle (fileReader_result h b) t (s\<lparr>reader_task := None\<rparr>)"

text \<open>
  \<^verbatim>\<open>mediaRecorder.ondataavailable = (event) => { if (event.data.size > 0) chunks.push(event.data) }\<close>
\<close>

definition mediaRecorder_ondataavailable :: "blob \<Rightarrow> capture \<Rightarrow> capture" where
  "mediaRecorder_ondataavailable b s =
     (if length (blob_bytes b) > 0 then s\<lparr>chunks := chunks s @ [b]\<rparr> else s)"

text \<open>
  \<^verbatim>\<open>mediaRecorder.onstop\<close>: the chunks become one blob of type
  \<^verbatim>\<open>audio/wav\<close>, and a reader begins to turn it into a data URL.  The handler
  returns; the promise is settled when the read ends.
\<close>

definition mediaRecorder_onstop :: "host \<Rightarrow> nat \<Rightarrow> capture \<Rightarrow> capture" where
  "mediaRecorder_onstop h t s =
     (let b = \<lparr>blob_type = ''audio/wav'', blob_bytes = concat (map blob_bytes (chunks s))\<rparr>
      in s\<lparr>reader_task := Some (t + reader_latency h, b)\<rparr>)"

text \<open>
  \<^verbatim>\<open>mediaRecorder.stop()\<close>, the host's method.  On an inactive recorder it raises
  or does nothing, as the host has it.  Otherwise the recorder becomes inactive at once
  and a task is queued.  The result is the exception raised, if any, and the new state.
  In the queued task, \<open>mediaRecorder_stop_task\<close>, the recorder stops gathering, delivers
  what it has gathered to \<^verbatim>\<open>ondataavailable\<close> and fires \<^verbatim>\<open>stop\<close>.
\<close>

definition mediaRecorder_stop :: "host \<Rightarrow> nat \<Rightarrow> capture \<Rightarrow> js_error option \<times> capture" where
  "mediaRecorder_stop h t s =
     (let s1 = s\<lparr>stop_calls := Suc (stop_calls s)\<rparr> in
      if rec_state s1 = Inactive
      then (if stop_inactive_throws h then Some InvalidStateError else None, s1)
      else (None, s1\<lparr>rec_state := Inactive, stop_task := Some (t + stop_latency h)\<rparr>))"

definition mediaRecorder_stop_task :: "host \<Rightarrow> nat \<Rightarrow> capture \<Rightarrow> capture" where
  "mediaRecorder_stop_task h t s =
     mediaRecorder_onstop h t
       (mediaRecorder_ondataavailable
          \<lparr>blob_type = recorder_mimeType h, blob_bytes = gathered s\<rparr>
          (s\<lparr>gathered := [], stop_events := Suc (stop_events s), stop_task := None\<rparr>))"

definition audioContext_close :: "capture \<Rightarrow> capture" where
  "audioContext_close s = s\<lparr>close_calls := Suc (close_calls s), context_closed := True\<rparr>"

text \<open>
  The two statements \<^verbatim>\<open>mediaRecorder.stop(); audioContext.close();\<close> that both
  handlers contain: an exception of the first skips the second and leaves the handler.
\<close>

definition stop_and_close :: "host \<Rightarrow> nat \<Rightarrow> capture \<Rightarrow> capture" where
  "stop_and_close h t s =
     (case mediaRecorder_stop h t s of
        (Some e, s') \<Rightarrow> s'\<lparr>uncaught := uncaught s' @ [e]\<rparr>
      | (None, s') \<Rightarrow> audioContext_close s')"

text \<open>\<^verbatim>\<open>utterance.onend = () => { mediaRecorder.stop(); audioContext.close(); }\<close>\<close>

definition utterance_onend :: "host \<Rightarrow> nat \<Rightarrow> capture \<Rightarrow> capture" where
  "utterance_onend h t s = stop_and_close h t s"

text \<open>
  The callback of \<^verbatim>\<open>setTimeout\<close>:
  \<^verbatim>\<open>if (mediaRecorder.state === 'recording') { mediaRecorder.stop(); audioContext.close(); }\<close>
\<close>

definition timeout_callback :: "host \<Rightarrow> nat \<Rightarrow> capture \<Rightarrow> capture" where
  "timeout_callback h t s = (if rec_state s = Recording then stop_and_close h t s else s)"

text \<open>
  The event loop runs one task at a time.  \<open>run_task\<close> is one task of the schedule:
  something the host does, or the timer.  Audio reaches the recorder while it records
  and until its queued stop task has run.
\<close>

datatype task = HostEvent host_event | Timeout

fun run_task :: "host \<Rightarrow> capture \<Rightarrow> nat \<times> task \<Rightarrow> capture" where
  "run_task h s (t, HostEvent (Audio bs)) =
     (if rec_state s = Recording then s\<lparr>gathered := gathered s @ bs\<rparr>
      else (case stop_task s of
              None \<Rightarrow> s
            | Some d \<Rightarrow> s\<lparr>gathered := gathered s @ bs\<rparr>))"
| "run_task h s (t, HostEvent UtteranceEnd) = utterance_onend h t s"
| "run_task h s (t, Timeout) = timeout_callback h t s"

text \<open>
  \<open>run_due\<close> runs the queued tasks of the session that are due by time \<open>t\<close>, each
  at the time it is due: the recorder's stop task, and then the end of the read (which
  only that task begins).  \<open>dispatch\<close> is one turn of the loop for a task of the
  schedule: what is due by its time runs first.  \<open>drain\<close> runs what is still queued
  when the schedule has ended.
\<close>

definition run_due :: "host \<Rightarrow> nat \<Rightarrow> capture \<Rightarrow> capture" where
  "run_due h t s =
     (let s1 = (case stop_task s of
                  None \<Rightarrow> s
                | Some d \<Rightarrow> if d \<le> t then mediaRecorder_stop_task h d s else s)
      in case reader_task s1 of
           None \<Rightarrow> s1
         | Some (d, b) \<Rightarrow> if d \<le> t then fileReader_task h d b s1 else s1)"

definition dispatch :: "host \<Rightarrow> capture \<Rightarrow> nat \<times> task \<Rightarrow> capture" where
  "dispatch h s e = run_task h (run_due h (fst e) s) e"

definition drain :: "host \<Rightarrow> capture \<Rightarrow> capture" where
  "drain h s =
     (let s1 = (case stop_task s of
                  None \<Rightarrow> s
                | Some d \<Rightarrow> mediaRecorder_stop_task h d s)
      in case reader_task s1 of
           None \<Rightarrow> s1
         | Some (d, b) \<Rightarrow> fileReader_task h d b s1)"

text \<open>
  The timer's task runs at its delay \<open>d\<close>, after what the host does up to that time
  and before what it does later.
\<close>

definition schedule :: "nat \<Rightarrow> (nat \<times> host_event) list \<Rightarrow> (nat \<times> task) list" where
  "schedule d evs =
     map (apsnd HostEvent) (takeWhile (\<lambda>e. fst e \<le> d) evs)
     @ [(d, Timeout)]
     @ map (apsnd HostEvent) (dropWhile (\<lambda>e. fst e \<le> d) evs)"

text \<open>After \<^verbatim>\<open>mediaRecorder.start()\<close>: recording, nothing gathered, nothing settled.\<close>

definition capture_start :: capture where
  "capture_start =
     \<lparr>rec_state = Recording, gathered = [], chunks = [], context_closed = False,
      stop_calls = 0, close_calls = 0, stop_events = 0, settled = None, uncaught = [],
      stop_task = None, reader_task = None\<rparr>"

text \<open>
  \<^verbatim>\<open>synthesizeWithBrowser(text)\<close>.  The executor rejects when
  \<^verbatim>\<open>speechSynthesis\<close> is missing; an exception of a constructor the host lacks
  rejects the promise as well.  Otherwise the recorder starts, the timer is requested
  with the delay \<^verbatim>\<open>text.length * 100\<close> and the tasks run.
  \<open>synthesizeWithBrowser_session\<close> gives the final state of the session,
  \<open>synthesizeWithBrowser\<close> the way the promise ends.  The voice, rate and pitch the
  source gives the utterance have no part in what the recorder and the promise do, and
  are left out.
\<close>

definition synthesizeWithBrowser_session :: "host \<Rightarrow> string \<Rightarrow> js_error + capture" where
  "synthesizeWithBrowser_session h text =
     (if \<not> has_speechSynthesis h
      then Inl (Error ''Speech synthesis not supported in this browser'')
      else if \<not> (has_AudioContext h \<or> has_webkitAudioContext h) then Inl TypeError
      else if \<not> has_MediaRecorder h then Inl ReferenceError
      else Inr (drain h
                  (foldl (dispatch h) capture_start
                     (schedule (setTimeout_delay h (length text * 100)) (timeline h)))))"

definition promise_of :: "capture \<Rightarrow> string outcome" where
  "promise_of s = (case settled s of None \<Rightarrow> Pending | Some (r, t) \<Rightarrow> r)"

definition synthesizeWithBrowser :: "host \<Rightarrow> string \<Rightarrow> string outcome" where
  "synthesizeWithBrowser h text =
     (case synthesizeWithBrowser_session h text of
        Inl e \<Rightarrow> Rejected e
      | Inr s \<Rightarrow> promise_of s)"

subsection \<open>The phases of a session\<close>

text \<open>
  Two predicates for reasoning about a session.  It is \<open>fresh\<close> while the recorder
  records: nothing is queued, delivered or settled.  It is \<open>stopped_at h t\<close> once
  \<^verbatim>\<open>stop()\<close> has been called on the recording recorder at time \<open>t\<close>: the
  recorder is inactive, and either its stop task is queued for \<open>t + stop_latency h\<close>,
  or that task has run once and the read of an \<^verbatim>\<open>audio/wav\<close> blob ends at
  \<open>t + stop_latency h + reader_latency h\<close>, or the read has ended at that time and
  its outcome has settled the promise.
\<close>

definition fresh :: "capture \<Rightarrow> bool" where
  "fresh s \<longleftrightarrow>
     rec_state s = Recording \<and> chunks s = [] \<and> stop_events s = 0 \<and> settled s = None
     \<and> stop_task s = None \<and> reader_task s = None"

definition stopped_at :: "host \<Rightarrow> nat \<Rightarrow> capture \<Rightarrow> bool" where
  "stopped_at h t s \<longleftrightarrow>
     rec_state s = Inactive \<and>
     ((stop_task s = Some (t + stop_latency h) \<and> reader_task s = None \<and> settled s = None
        \<and> stop_events s = 0 \<and> chunks s = [])
      \<or> (stop_task s = None \<and> settled s = None \<and> stop_events s = 1
          \<and> (\<exists>b. blob_type b = ''audio/wav''
                 \<and> reader_task s = Some (t + stop_latency h + reader_latency h, b)))
      \<or> (stop_task s = None \<and> reader_task s = None \<and> stop_events s = 1
          \<and> (\<exists>b. blob_type b = ''audio/wav''
                 \<and> settled s = Some (fileReader_result h b,
                                       t + stop_latency h + reader_latency h))))"

section \<open>\<^verbatim>\<open>voiceService.synthesizeSpeech\<close>\<close>

definition mk_request :: "string \<Rightarrow> string option \<Rightarrow> options option \<Rightarrow> request" where
  "mk_request text voiceId opts =
     \<lparr>body_text = text,
      body_voice_id = voiceId,
      body_stability = (case opts of None \<Rightarrow> None | Some p \<Rightarrow> opt_stability p),
      body_similarity_boost = (case opts of None \<Rightarrow> None | Some p \<Rightarrow> opt_similarityBoost p),
      body_style = (case opts of None \<Rightarrow> None | Some p \<Rightarrow> opt_style p),
      body_use_speaker_boost = (case opts of None \<Rightarrow> None | Some p \<Rightarrow> opt_speakerBoost p)\<rparr>"

text \<open>
  The test \<^verbatim>\<open>data.success && data.audio\<close> on the outcome of a provider call: the
  payload when the call returned, the flag is truthy and the payload is a non-empty
  string, and \<open>None\<close> in every other case (the \<^verbatim>\<open>catch\<close> of the tier absorbs
  an exception).
\<close>

definition usable :: "response option \<Rightarrow> string option" where
  "usable r =
     (case r of
        None \<Rightarrow> None
      | Some d \<Rightarrow>
          (if success d
           then (case audio d of None \<Rightarrow> None | Some a \<Rightarrow> if a \<noteq> [] then Some a else None)
           else None))"

text \<open>
  The guard of the second tier:
  \<^verbatim>\<open>supabaseUrl && supabaseAnonKey && !supabaseUrl.includes('your_') && !supabaseAnonKey.includes('your_')\<close>.
  It gives the two values when it holds.
\<close>

definition edge_target :: "backend \<Rightarrow> (string \<times> string) option" where
  "edge_target b =
     (case VITE_SUPABASE_URL b of
        None \<Rightarrow> None
      | Some u \<Rightarrow>
          (case VITE_SUPABASE_ANON_KEY b of
             None \<Rightarrow> None
           | Some k \<Rightarrow>
               if u \<noteq> [] \<and> k \<noteq> [] \<and> \<not> includes_str u ''your_'' \<and> \<not> includes_str k ''your_''
               then Some (u, k) else None))"

text \<open>
  The three tiers in order.  The result is the list of calls made and the way the
  returned promise ends.  The outer \<^verbatim>\<open>catch\<close> of the source also returns
  \<^verbatim>\<open>synthesizeWithBrowser(text)\<close>; nothing between the inner
  \<^verbatim>\<open>try\<close> blocks can throw on values of these types, so it adds no branch.
\<close>

definition synthesizeSpeech ::
  "backend \<Rightarrow> host \<Rightarrow> string \<Rightarrow> string option \<Rightarrow> options option \<Rightarrow> call list \<times> string outcome" where
  "synthesizeSpeech b h text voiceId opts =
     (let req = mk_request text voiceId opts in
      case usable (api_post b req) of
        Some a \<Rightarrow>
          ([ApiPost req],
           Resolved (if \<not> startsWith a ''data:'' then ''data:audio/mpeg;base64,'' @ a else a))
      | None \<Rightarrow>
          (case edge_target b of
             Some (u, k) \<Rightarrow>
               (let url = u @ ''/functions/v1/voice-synthesis''; auth = ''Bearer '' @ k in
                case usable (edge_fetch b url auth req) of
                  Some a \<Rightarrow>
                    ([ApiPost req, EdgeFetch url auth req],
                     Resolved (''data:audio/mpeg;base64,'' @ a))
                | None \<Rightarrow>
                    ([ApiPost req, EdgeFetch url auth req, Browser text],
                     synthesizeWithBrowser h text))
           | None \<Rightarrow> ([ApiPost req, Browser text], synthesizeWithBrowser h text)))"

section \<open>\<^verbatim>\<open>voiceService.listVoices\<close>\<close>

record Voice =
  voice_id :: string
  name :: string
  preview_url :: "string option"
  description :: "string option"
  category :: "string option"

definition getMockVoices :: "Voice list" where
  "getMockVoices =
     [\<lparr>voice_id = ''21m00Tcm4TlvDq8ikWAM'', name = ''Rachel'',
       preview_url = Some ''https://example.com/voice-preview.mp3'',
       description = Some ''A friendly and professional female voice'',
       category = Some ''premade''\<rparr>,
      \<lparr>voice_id = ''AZnzlk1XvdvUeBnXmlld'', name = ''Domi'',
       preview_url = Some ''https://example.com/voice-preview.mp3'',
       description = Some ''An authoritative and clear male voice'',
       category = Some ''premade''\<rparr>,
      \<lparr>voice_id = ''EXAVITQu4vr4xnSDxMaL'', name = ''Bella'',
       preview_url = Some ''https://example.com/voice-preview.mp3'',
       description = Some ''A warm and engaging female voice'',
       category = Some ''premade''\<rparr>,
      \<lparr>voice_id = ''ErXwobaYiN019PkySvjV'', name = ''Antoni'',
       preview_url = Some ''https://example.com/voice-preview.mp3'',
       description = Some ''A confident and articulate male voice'',
       category = Some ''premade''\<rparr>]"

text \<open>
  The argument is the outcome of \<^verbatim>\<open>api.get('/agent/voice/voices')\<close>: \<open>None\<close>
  when the call throws, \<open>Some None\<close> when the answer has no \<^verbatim>\<open>voices\<close>,
  \<open>Some (Some vs)\<close> when it has the array \<open>vs\<close>.
\<close>

definition listVoices :: "Voice list option option \<Rightarrow> Voice list outcome" where
  "listVoices r =
     (case r of
        None \<Rightarrow> Resolved getMockVoices
      | Some None \<Rightarrow> Resolved getMockVoices
      | Some (Some vs) \<Rightarrow> if length vs > 0 then Resolved vs else Resolved getMockVoices)"

section \<open>\<^verbatim>\<open>voiceService.recognizeSpeech\<close> and the capability probes\<close>

text \<open>
  A recognition object as the source configures it, and the state of one call: the
  recognition objects created so far, the promise, and the exceptions that escaped a
  handler.
\<close>

record recognition =
  lang :: string
  interimResults :: bool
  maxAlternatives :: nat
  started :: bool

record recognizer =
  sessions :: "recognition list"
  rec_settled :: "string outcome option"
  rec_uncaught :: "js_error list"

text \<open>
  The events of a session: a result event carries \<^verbatim>\<open>event.results\<close>, a list of
  results, each a list of alternatives given by their transcripts; an error event carries
  \<^verbatim>\<open>event.error\<close>.
\<close>

datatype recognition_event = ResultEvent "string list list" | ErrorEvent string

definition rec_settle :: "string outcome \<Rightarrow> recognizer \<Rightarrow> recognizer" where
  "rec_settle r s =
     s\<lparr>rec_settled := (case rec_settled s of None \<Rightarrow> Some r | Some x \<Rightarrow> Some x)\<rparr>"

text \<open>
  \<^verbatim>\<open>recognition.onresult\<close> reads \<^verbatim>\<open>event.results[0][0].transcript\<close>; where
  that element does not exist the read throws inside the handler and nothing is settled.
\<close>

fun recognition_onresult :: "string list list \<Rightarrow> recognizer \<Rightarrow> recognizer" where
  "recognition_onresult ((transcript # alts) # results) s = rec_settle (Resolved transcript) s"
| "recognition_onresult results s = s\<lparr>rec_uncaught := rec_uncaught s @ [TypeError]\<rparr>"

definition recognition_onerror :: "string \<Rightarrow> recognizer \<Rightarrow> recognizer" where
  "recognition_onerror code s =
     rec_settle (Rejected (Error (''Speech recognition error: '' @ code))) s"

fun recognition_dispatch :: "recognizer \<Rightarrow> recognition_event \<Rightarrow> recognizer" where
  "recognition_dispatch s (ResultEvent results) = recognition_onresult results s"
| "recognition_dispatch s (ErrorEvent code) = recognition_onerror code s"

text \<open>The executor of the promise, up to and including \<^verbatim>\<open>recognition.start()\<close>.\<close>

definition recognizeSpeech_start :: "host \<Rightarrow> recognizer" where
  "recognizeSpeech_start h =
     (if \<not> (has_SpeechRecognition h \<or> has_webkitSpeechRecognition h)
      then \<lparr>sessions = [],
            rec_settled = Some (Rejected (Error ''Speech recognition not supported in this browser'')),
            rec_uncaught = []\<rparr>
      else \<lparr>sessions = [\<lparr>lang = ''en-US'', interimResults = False, maxAlternatives = 1,
                         started = True\<rparr>],
            rec_settled = None, rec_uncaught = []\<rparr>)"

text \<open>
  The whole call, given the events the session fires: without a session there is nothing
  that could fire them.
\<close>

definition recognizeSpeech :: "host \<Rightarrow> recognition_event list \<Rightarrow> recognizer" where
  "recognizeSpeech h evs =
     (let s = recognizeSpeech_start h in
      if sessions s = [] then s else foldl recognition_dispatch s evs)"

definition recognizeSpeech_result :: "host \<Rightarrow> recognition_event list \<Rightarrow> string outcome" where
  "recognizeSpeech_result h evs =
     (case rec_settled (recognizeSpeech h evs) of None \<Rightarrow> Pending | Some r \<Rightarrow> r)"

definition isSpeechSynthesisSupported :: "host \<Rightarrow> bool" where
  "isSpeechSynthesisSupported h = has_speechSynthesis h"

definition isSpeechRecognitionSupported :: "host \<Rightarrow> bool" where
  "isSpeechRecognitionSupported h = (has_SpeechRecognition h \<or> has_webkitSpeechRecognition h)"

section \<open>Sample environments\<close>

text \<open>
  A host with every capability the service uses, which runs queued tasks without delay
  and treats timer delays as the HTML standard says, and a backend whose providers are
  both out of reach.  The closed facts below vary them field by field.
\<close>

definition sample_host :: host where
  "sample_host =
     \<lparr>has_speechSynthesis = True, has_AudioContext = True, has_webkitAudioContext = False,
      has_MediaRecorder = True, has_SpeechRecognition = False,
      has_webkitSpeechRecognition = True, recorder_mimeType = ''audio/webm'',
      stop_inactive_throws = False, reader_fails = False,
      base64 = (\<lambda>bs. replicate (length bs) CHR ''A''), timeline = [],
      stop_latency = 0, reader_latency = 0, timer_overflow = long_delay\<rparr>"

definition offline :: backend where
  "offline =
     \<lparr>api_post = (\<lambda>r. None), VITE_SUPABASE_URL = None, VITE_SUPABASE_ANON_KEY = None,
      edge_fetch = (\<lambda>u k r. None)\<rparr>"

section \<open>The string tests and the tier tests\<close>

lemma startsWith_prefix: "startsWith s p = prefix p s"
  by (induction s p rule: startsWith.induct) auto

lemma includes_str_sublist: "includes_str s p = sublist p s"
  by (induction s) (auto simp: startsWith_prefix sublist_Cons_right)

lemma usable_None_iff:
  "usable r = None \<longleftrightarrow>
     (r = None \<or> (\<exists>d. r = Some d \<and> (\<not> success d \<or> audio d = None \<or> audio d = Some [])))"
  by (auto simp: usable_def split: option.splits if_splits)

lemma usable_Some_iff:
  "usable r = Some a \<longleftrightarrow> (r = Some (Response True (Some a)) \<and> a \<noteq> [])"
proof (cases r)
  case None
  then show ?thesis by (simp add: usable_def)
next
  case (Some d)
  then show ?thesis
    by (cases d) (auto simp: usable_def split: option.splits if_splits)
qed

lemma edge_target_Some_iff:
  "edge_target b = Some (u, k) \<longleftrightarrow>
     (VITE_SUPABASE_URL b = Some u \<and> VITE_SUPABASE_ANON_KEY b = Some k \<and> u \<noteq> [] \<and> k \<noteq> []
      \<and> \<not> includes_str u ''your_'' \<and> \<not> includes_str k ''your_'')"
  by (auto simp: edge_target_def split: option.splits if_splits)

section \<open>The capture session, step by step\<close>

text \<open>
  A call of \<^verbatim>\<open>stop()\<close> on the recording recorder ends the fresh phase; from
  then on every task of the schedule and every queued task keeps the session stopped at
  the time of that call, and when nothing is queued any more the promise is settled.
\<close>

lemmas capture_defs =
  stop_and_close_def mediaRecorder_stop_def mediaRecorder_stop_task_def mediaRecorder_onstop_def
  mediaRecorder_ondataavailable_def promise_settle_def audioContext_close_def fileReader_task_def
  Let_def

lemma stop_and_close_recording:
  assumes "rec_state s = Recording"
  shows "stop_and_close h t s =
           s\<lparr>rec_state := Inactive, stop_task := Some (t + stop_latency h),
             context_closed := True,
             stop_calls := Suc (stop_calls s),
             close_calls := Suc (close_calls s)\<rparr>"
  using assms by (simp add: capture_defs)

lemma stop_and_close_inactive:
  assumes "rec_state s = Inactive"
  shows "stop_and_close h t s =
           (if stop_inactive_throws h
            then s\<lparr>stop_calls := Suc (stop_calls s), uncaught := uncaught s @ [InvalidStateError]\<rparr>
            else s\<lparr>stop_calls := Suc (stop_calls s), close_calls := Suc (close_calls s),
                   context_closed := True\<rparr>)"
  using assms by (simp add: capture_defs)

lemma run_due_fresh: "fresh s \<Longrightarrow> run_due h t s = s"
  by (simp add: fresh_def run_due_def)

lemma stop_task_stopped:
  assumes "stopped_at h t0 s" and "stop_task s = Some d"
  shows "stopped_at h t0 (mediaRecorder_stop_task h d s)"
    and "stop_task (mediaRecorder_stop_task h d s) = None"
    and "d = t0 + stop_latency h"
  using assms by (auto simp: stopped_at_def capture_defs)

lemma reader_task_stopped:
  assumes "stopped_at h t0 s" and "reader_task s = Some (d, b)"
  shows "stopped_at h t0 (fileReader_task h d b s)"
    and "reader_task (fileReader_task h d b s) = None"
  using assms by (auto simp: stopped_at_def capture_defs)

lemma run_due_stopped: "stopped_at h t0 s \<Longrightarrow> stopped_at h t0 (run_due h t s)"
  by (auto simp: run_due_def Let_def stop_task_stopped(1) reader_task_stopped(1)
      split: option.splits)

lemma run_task_stopped:
  assumes "stopped_at h t0 s"
  shows "stopped_at h t0 (run_task h s e)"
proof -
  have i: "rec_state s = Inactive" using assms by (simp add: stopped_at_def)
  obtain t k where e: "e = (t, k)" by (cases e)
  show ?thesis
  proof (cases k)
    case (HostEvent ev)
    show ?thesis
    proof (cases ev)
      case (Audio bs)
      with e HostEvent assms show ?thesis
        by (auto simp: stopped_at_def split: option.splits)
    next
      case UtteranceEnd
      with e HostEvent assms i show ?thesis
        by (auto simp: utterance_onend_def stop_and_close_inactive stopped_at_def)
    qed
  next
    case Timeout
    with e i assms show ?thesis by (simp add: timeout_callback_def)
  qed
qed

lemma dispatch_stopped: "stopped_at h t0 s \<Longrightarrow> stopped_at h t0 (dispatch h s e)"
  by (simp add: dispatch_def run_due_stopped run_task_stopped)

lemma run_stopped: "stopped_at h t0 s \<Longrightarrow> stopped_at h t0 (foldl (dispatch h) s es)"
  by (induction es arbitrary: s) (simp_all add: dispatch_stopped)

lemma stopped_at_done:
  assumes "stopped_at h t0 s" and "stop_task s = None" and "reader_task s = None"
  shows "rec_state s = Inactive \<and> stop_events s = 1
         \<and> (\<exists>b. blob_type b = ''audio/wav''
                \<and> settled s = Some (fileReader_result h b, t0 + stop_latency h + reader_latency h))"
  using assms by (auto simp: stopped_at_def)

lemma drain_stopped:
  assumes "stopped_at h t0 s"
  shows "rec_state (drain h s) = Inactive \<and> stop_events (drain h s) = 1
         \<and> (\<exists>b. blob_type b = ''audio/wav''
                \<and> settled (drain h s)
                    = Some (fileReader_result h b, t0 + stop_latency h + reader_latency h))"
proof -
  define s1 where "s1 = (case stop_task s of None \<Rightarrow> s | Some d \<Rightarrow> mediaRecorder_stop_task h d s)"
  define s2 where "s2 = (case reader_task s1 of None \<Rightarrow> s1 | Some (d, b) \<Rightarrow> fileReader_task h d b s1)"
  have d: "drain h s = s2" unfolding drain_def s2_def s1_def Let_def ..
  have 1: "stopped_at h t0 s1 \<and> stop_task s1 = None"
    using assms stop_task_stopped [OF assms] by (cases "stop_task s") (simp_all add: s1_def)
  then have 2: "stopped_at h t0 s2 \<and> reader_task s2 = None"
    using reader_task_stopped [of h t0 s1]
    by (cases "reader_task s1") (auto simp: s2_def)
  have "stop_task s2 = None"
    using 1 by (cases "reader_task s1") (auto simp: s2_def fileReader_task_def promise_settle_def)
  with 2 stopped_at_done [of h t0 s2] show ?thesis unfolding d by blast
qed

text \<open>
  Neither the queued tasks nor audio reaching the recorder call \<^verbatim>\<open>stop()\<close> or
  \<^verbatim>\<open>close()\<close>, raise an exception or change the recorder's state.
\<close>

lemma run_due_counters:
  "rec_state (run_due h t s) = rec_state s \<and> stop_calls (run_due h t s) = stop_calls s
   \<and> close_calls (run_due h t s) = close_calls s \<and> uncaught (run_due h t s) = uncaught s
   \<and> context_closed (run_due h t s) = context_closed s"
  by (auto simp: run_due_def capture_defs split: option.splits)

lemma drain_counters:
  "rec_state (drain h s) = rec_state s \<and> stop_calls (drain h s) = stop_calls s
   \<and> close_calls (drain h s) = close_calls s \<and> uncaught (drain h s) = uncaught s
   \<and> context_closed (drain h s) = context_closed s"
  by (auto simp: drain_def capture_defs split: option.splits)

lemma audio_counters:
  "rec_state (dispatch h s (t, HostEvent (Audio bs))) = rec_state s
   \<and> stop_calls (dispatch h s (t, HostEvent (Audio bs))) = stop_calls s
   \<and> close_calls (dispatch h s (t, HostEvent (Audio bs))) = close_calls s
   \<and> uncaught (dispatch h s (t, HostEvent (Audio bs))) = uncaught s
   \<and> context_closed (dispatch h s (t, HostEvent (Audio bs))) = context_closed s"
  using run_due_counters [of h t s]
  by (auto simp: dispatch_def split: option.splits)

lemma audio_only_counters:
  "UtteranceEnd \<notin> snd ` set evs \<Longrightarrow>
   rec_state (foldl (dispatch h) s (map (apsnd HostEvent) evs)) = rec_state s
   \<and> stop_calls (foldl (dispatch h) s (map (apsnd HostEvent) evs)) = stop_calls s
   \<and> close_calls (foldl (dispatch h) s (map (apsnd HostEvent) evs)) = close_calls s
   \<and> uncaught (foldl (dispatch h) s (map (apsnd HostEvent) evs)) = uncaught s
   \<and> context_closed (foldl (dispatch h) s (map (apsnd HostEvent) evs)) = context_closed s"
proof (induction evs arbitrary: s)
  case Nil
  then show ?case by simp
next
  case (Cons e evs)
  obtain t ev where e: "e = (t, ev)" by (cases e)
  with Cons.prems obtain bs where ev: "ev = Audio bs" by (cases ev) auto
  have rest: "UtteranceEnd \<notin> snd ` set evs" using Cons.prems by auto
  from Cons.IH [OF rest, of "dispatch h s (t, HostEvent (Audio bs))"] audio_counters [of h s t bs]
  show ?case using e ev by simp
qed

lemma audio_only_fresh:
  "UtteranceEnd \<notin> snd ` set evs \<Longrightarrow> fresh s \<Longrightarrow>
   fresh (foldl (dispatch h) s (map (apsnd HostEvent) evs))"
proof (induction evs arbitrary: s)
  case Nil
  then show ?case by simp
next
  case (Cons e evs)
  obtain t ev where e: "e = (t, ev)" by (cases e)
  with Cons.prems obtain bs where ev: "ev = Audio bs" by (cases ev) auto
  have rest: "UtteranceEnd \<notin> snd ` set evs" using Cons.prems by auto
  have "dispatch h s (t, HostEvent (Audio bs)) = s\<lparr>gathered := gathered s @ bs\<rparr>"
    using Cons.prems(2) by (simp add: dispatch_def run_due_fresh) (simp add: fresh_def)
  moreover have "fresh (s\<lparr>gathered := gathered s @ bs\<rparr>)"
    using Cons.prems(2) by (simp add: fresh_def)
  ultimately show ?case using Cons.IH [OF rest] e ev by simp
qed

lemma fresh_stop: "fresh s \<Longrightarrow> stopped_at h t (stop_and_close h t s)"
  by (simp add: fresh_def stop_and_close_recording stopped_at_def)

lemma run_before_timer:
  assumes "\<forall>e \<in> set evs. fst e \<le> d" and "fresh s"
  shows "fresh (foldl (dispatch h) s (map (apsnd HostEvent) evs))
       \<or> (\<exists>t0 \<le> d. stopped_at h t0 (foldl (dispatch h) s (map (apsnd HostEvent) evs)))"
  using assms
proof (induction evs arbitrary: s)
  case Nil
  then show ?case by simp
next
  case (Cons e evs)
  obtain t ev where e: "e = (t, ev)" by (cases e)
  have later: "\<forall>e \<in> set evs. fst e \<le> d" and now: "t \<le> d" using Cons.prems(1) e by auto
  show ?case
  proof (cases ev)
    case (Audio bs)
    have "dispatch h s (t, HostEvent (Audio bs)) = s\<lparr>gathered := gathered s @ bs\<rparr>"
      using Cons.prems(2) by (simp add: dispatch_def run_due_fresh) (simp add: fresh_def)
    moreover have "fresh (s\<lparr>gathered := gathered s @ bs\<rparr>)"
      using Cons.prems(2) by (simp add: fresh_def)
    ultimately show ?thesis using Cons.IH [OF later] e Audio by simp
  next
    case UtteranceEnd
    have "dispatch h s (t, HostEvent UtteranceEnd) = stop_and_close h t s"
      using Cons.prems(2) by (simp add: dispatch_def run_due_fresh utterance_onend_def)
    moreover have "stopped_at h t (stop_and_close h t s)" using Cons.prems(2) by (rule fresh_stop)
    ultimately have "stopped_at h t (foldl (dispatch h) s (map (apsnd HostEvent) (e # evs)))"
      using run_stopped [of h t "stop_and_close h t s"] e UtteranceEnd by simp
    with now show ?thesis by blast
  qed
qed

lemma timer_stops:
  assumes "fresh s \<or> (\<exists>t0 \<le> d. stopped_at h t0 s)"
  shows "\<exists>t0 \<le> d. stopped_at h t0 (dispatch h s (d, Timeout))"
proof (cases "fresh s")
  case True
  then have "dispatch h s (d, Timeout) = stop_and_close h d s"
    by (simp add: dispatch_def run_due_fresh timeout_callback_def) (simp add: fresh_def)
  with fresh_stop [OF True, of h d] show ?thesis by auto
next
  case False
  with assms obtain t0 where "t0 \<le> d" "stopped_at h t0 s" by blast
  then show ?thesis using dispatch_stopped by blast
qed

section \<open>The capture session as a whole\<close>

lemma session_Inr:
  "synthesizeWithBrowser_session h text = Inr s \<longleftrightarrow>
     has_speechSynthesis h \<and> (has_AudioContext h \<or> has_webkitAudioContext h) \<and> has_MediaRecorder h
     \<and> s = drain h (foldl (dispatch h) capture_start
                     (schedule (setTimeout_delay h (length text * 100)) (timeline h)))"
  by (auto simp: synthesizeWithBrowser_session_def)

lemma run_schedule:
  "foldl (dispatch h) s (schedule d evs) =
     foldl (dispatch h)
       (dispatch h
          (foldl (dispatch h) s (map (apsnd HostEvent) (takeWhile (\<lambda>e. fst e \<le> d) evs)))
          (d, Timeout))
       (map (apsnd HostEvent) (dropWhile (\<lambda>e. fst e \<le> d) evs))"
  by (simp add: schedule_def)

lemma fresh_start: "fresh capture_start"
  by (simp add: fresh_def capture_start_def)

lemma session_settles:
  assumes "synthesizeWithBrowser_session h text = Inr s"
  shows "rec_state s = Inactive \<and> stop_events s = 1
         \<and> (\<exists>b t0. t0 \<le> setTimeout_delay h (length text * 100) \<and> blob_type b = ''audio/wav''
                  \<and> settled s = Some (fileReader_result h b,
                                        t0 + stop_latency h + reader_latency h))"
proof -
  let ?d = "setTimeout_delay h (length text * 100)"
  let ?pre = "takeWhile (\<lambda>e. fst e \<le> ?d) (timeline h)"
  let ?post = "map (apsnd HostEvent) (dropWhile (\<lambda>e. fst e \<le> ?d) (timeline h))"
  let ?s1 = "foldl (dispatch h) capture_start (map (apsnd HostEvent) ?pre)"
  let ?s2 = "dispatch h ?s1 (?d, Timeout)"
  let ?s3 = "foldl (dispatch h) ?s2 ?post"
  have s: "s = drain h ?s3"
    using assms by (simp add: session_Inr run_schedule)
  have "\<forall>e \<in> set ?pre. fst e \<le> ?d" by (auto dest: set_takeWhileD)
  then have "fresh ?s1 \<or> (\<exists>t0 \<le> ?d. stopped_at h t0 ?s1)"
    using fresh_start by (rule run_before_timer)
  then obtain t0 where t0: "t0 \<le> ?d" "stopped_at h t0 ?s2"
    using timer_stops by blast
  then have "stopped_at h t0 ?s3" by (simp add: run_stopped)
  from drain_stopped [OF this] t0(1) s show ?thesis by blast
qed

lemma browser_outcome:
  assumes "has_speechSynthesis h" "has_AudioContext h \<or> has_webkitAudioContext h" "has_MediaRecorder h"
  shows "\<exists>b. blob_type b = ''audio/wav'' \<and> synthesizeWithBrowser h text = fileReader_result h b"
proof -
  obtain s where s: "synthesizeWithBrowser_session h text = Inr s"
    using assms by (simp add: synthesizeWithBrowser_session_def)
  from session_settles [OF s] obtain b t where
    "blob_type b = ''audio/wav''" "settled s = Some (fileReader_result h b, t)" by blast
  then show ?thesis using s by (auto simp: synthesizeWithBrowser_def promise_of_def)
qed

lemma wav_url: "blob_type b = ''audio/wav'' \<Longrightarrow>
   startsWith (readAsDataURL h b) ''data:audio/wav;base64,''
   \<and> startsWith (readAsDataURL h b) ''data:''
   \<and> \<not> startsWith (readAsDataURL h b) ''data:audio/mpeg;base64,''"
  by (simp add: readAsDataURL_def)

section \<open>The three tiers\<close>

lemmas session_eval =
  synthesizeWithBrowser_session_def setTimeout_delay_def sample_host_def schedule_def
  capture_start_def timeout_callback_def utterance_onend_def dispatch_def run_due_def drain_def
  capture_defs fileReader_result_def readAsDataURL_def

text \<open>
  The four ways through \<^verbatim>\<open>synthesizeSpeech\<close>, with the calls each makes and
  its result; and what the last tier can end with.
\<close>

lemma synthesizeSpeech_cases:
  "(\<exists>a. usable (api_post b (mk_request text voiceId opts)) = Some a
        \<and> synthesizeSpeech b h text voiceId opts =
            ([ApiPost (mk_request text voiceId opts)],
             Resolved (if startsWith a ''data:'' then a else ''data:audio/mpeg;base64,'' @ a)))
   \<or> (\<exists>u k a. usable (api_post b (mk_request text voiceId opts)) = None
        \<and> edge_target b = Some (u, k)
        \<and> usable (edge_fetch b (u @ ''/functions/v1/voice-synthesis'') (''Bearer '' @ k)
                     (mk_request text voiceId opts)) = Some a
        \<and> synthesizeSpeech b h text voiceId opts =
            ([ApiPost (mk_request text voiceId opts),
              EdgeFetch (u @ ''/functions/v1/voice-synthesis'') (''Bearer '' @ k)
                (mk_request text voiceId opts)],
             Resolved (''data:audio/mpeg;base64,'' @ a)))
   \<or> (\<exists>u k. usable (api_post b (mk_request text voiceId opts)) = None
        \<and> edge_target b = Some (u, k)
        \<and> usable (edge_fetch b (u @ ''/functions/v1/voice-synthesis'') (''Bearer '' @ k)
                     (mk_request text voiceId opts)) = None
        \<and> synthesizeSpeech b h text voiceId opts =
            ([ApiPost (mk_request text voiceId opts),
              EdgeFetch (u @ ''/functions/v1/voice-synthesis'') (''Bearer '' @ k)
                (mk_request text voiceId opts),
              Browser text],
             synthesizeWithBrowser h text))
   \<or> (usable (api_post b (mk_request text voiceId opts)) = None
        \<and> edge_target b = None
        \<and> synthesizeSpeech b h text voiceId opts =
            ([ApiPost (mk_request text voiceId opts), Browser text],
             synthesizeWithBrowser h text))"
  by (auto simp: synthesizeSpeech_def Let_def split: option.splits)

lemma browser_never_pending: "synthesizeWithBrowser h text \<noteq> Pending"
proof (cases "has_speechSynthesis h \<and> (has_AudioContext h \<or> has_webkitAudioContext h) \<and> has_MediaRecorder h")
  case True
  then obtain b where "synthesizeWithBrowser h text = fileReader_result h b"
    using browser_outcome [of h "text"] by blast
  then show ?thesis by (simp add: fileReader_result_def)
next
  case False
  then show ?thesis
    by (auto simp: synthesizeWithBrowser_def synthesizeWithBrowser_session_def)
qed

lemma browser_rejected:
  assumes "synthesizeWithBrowser h text = Rejected e"
  shows "(if \<not> has_speechSynthesis h
          then e = Error ''Speech synthesis not supported in this browser''
          else if \<not> (has_AudioContext h \<or> has_webkitAudioContext h) then e = TypeError
          else if \<not> has_MediaRecorder h then e = ReferenceError
          else e = ReaderError \<and> reader_fails h)"
proof (cases "has_speechSynthesis h \<and> (has_AudioContext h \<or> has_webkitAudioContext h) \<and> has_MediaRecorder h")
  case True
  then obtain b where "synthesizeWithBrowser h text = fileReader_result h b"
    using browser_outcome [of h "text"] by blast
  with assms True show ?thesis by (auto simp: fileReader_result_def split: if_splits)
next
  case False
  with assms show ?thesis
    by (auto simp: synthesizeWithBrowser_def synthesizeWithBrowser_session_def split: if_splits)
qed


lemma offline_run:
  "synthesizeSpeech offline h text voiceId opts =
     ([ApiPost (mk_request text voiceId opts), Browser text], synthesizeWithBrowser h text)"
  by (simp add: synthesizeSpeech_def usable_def edge_target_def offline_def Let_def)

section \<open>The claims about the synthesis controller\<close>

text \<open>
  C1.  The claim is that with speech synthesis present \<^verbatim>\<open>synthesizeSpeech\<close>
  always resolves to a self-describing audio resource, and that the rejection for a
  missing speech synthesis is the only error a caller can see.  The source forwards one
  more error: \<^verbatim>\<open>reader.onerror = reject\<close> hands a failure of the
  \<^verbatim>\<open>FileReader\<close> to the caller, and an exception of a constructor the host
  lacks rejects the promise of the last tier as well.  What holds: for every text, when
  speech synthesis, an audio context constructor and the recorder are present and the
  reader does not fail, the call resolves to a string that starts with
  \<^verbatim>\<open>data:\<close>; the call always settles; and whenever it rejects, the last call
  it made is the browser capture with the text alone, the error is the one that tier
  ended with, and it is the unsupported-environment error (speech synthesis missing),
  the host's exception for a missing constructor, or the reader's error.  No error of a
  remote provider ever reaches the caller.
\<close>

theorem C1_synthesizeSpeech_outcomes:
  "(has_speechSynthesis h \<and> (has_AudioContext h \<or> has_webkitAudioContext h)
      \<and> has_MediaRecorder h \<and> \<not> reader_fails h
      \<longrightarrow> (\<exists>url. snd (synthesizeSpeech b h text voiceId opts) = Resolved url
                 \<and> startsWith url ''data:''))
   \<and> snd (synthesizeSpeech b h text voiceId opts) \<noteq> Pending
   \<and> (\<forall>e. snd (synthesizeSpeech b h text voiceId opts) = Rejected e \<longrightarrow>
          last (fst (synthesizeSpeech b h text voiceId opts)) = Browser text
          \<and> synthesizeWithBrowser h text = Rejected e
          \<and> (if \<not> has_speechSynthesis h
              then e = Error ''Speech synthesis not supported in this browser''
              else if \<not> (has_AudioContext h \<or> has_webkitAudioContext h) then e = TypeError
              else if \<not> has_MediaRecorder h then e = ReferenceError
              else e = ReaderError \<and> reader_fails h))"
proof -
  let ?r = "synthesizeSpeech b h text voiceId opts"
  have tier: "(\<exists>url. snd ?r = Resolved url \<and> startsWith url ''data:'')
              \<or> (last (fst ?r) = Browser text \<and> snd ?r = synthesizeWithBrowser h text)"
    using synthesizeSpeech_cases [of b "text" voiceId opts h] by (elim disjE exE conjE) auto
  have 1: "\<exists>url. snd ?r = Resolved url \<and> startsWith url ''data:''"
    if caps: "has_speechSynthesis h" "has_AudioContext h \<or> has_webkitAudioContext h"
       "has_MediaRecorder h" "\<not> reader_fails h"
  proof -
    from browser_outcome [OF caps(1-3), of "text"] obtain bl where
      bl: "blob_type bl = ''audio/wav''" "synthesizeWithBrowser h text = fileReader_result h bl"
      by blast
    then have "synthesizeWithBrowser h text = Resolved (readAsDataURL h bl)"
      using caps(4) by (simp add: fileReader_result_def)
    moreover have "startsWith (readAsDataURL h bl) ''data:''" using wav_url [OF bl(1)] by simp
    ultimately show ?thesis using tier by auto
  qed
  have 2: "snd ?r \<noteq> Pending" using tier browser_never_pending [of h "text"] by auto
  have 3: "last (fst ?r) = Browser text \<and> synthesizeWithBrowser h text = Rejected e
          \<and> (if \<not> has_speechSynthesis h
              then e = Error ''Speech synthesis not supported in this browser''
              else if \<not> (has_AudioContext h \<or> has_webkitAudioContext h) then e = TypeError
              else if \<not> has_MediaRecorder h then e = ReferenceError
              else e = ReaderError \<and> reader_fails h)" if "snd ?r = Rejected e" for e
  proof -
    from tier that have "last (fst ?r) = Browser text" "synthesizeWithBrowser h text = Rejected e"
      by auto
    then show ?thesis using browser_rejected [of h "text" e] by simp
  qed
  from 1 2 3 show ?thesis by blast
qed

theorem C1_synthesizeSpeech_outcomes_witness:
  "has_speechSynthesis sample_host \<and> (has_AudioContext sample_host \<or> has_webkitAudioContext sample_host)
   \<and> has_MediaRecorder sample_host \<and> \<not> reader_fails sample_host
   \<and> (\<exists>url. snd (synthesizeSpeech offline sample_host ''hi'' None None) = Resolved url
            \<and> startsWith url ''data:'')
   \<and> synthesizeSpeech offline sample_host ''hi'' None None
      = ([ApiPost (mk_request ''hi'' None None), Browser ''hi''], Resolved ''data:audio/wav;base64,'')
   \<and> synthesizeSpeech offline (sample_host\<lparr>has_speechSynthesis := False\<rparr>) ''hi'' None None
      = ([ApiPost (mk_request ''hi'' None None), Browser ''hi''],
         Rejected (Error ''Speech synthesis not supported in this browser''))"
proof -
  have caps: "has_speechSynthesis sample_host"
    "has_AudioContext sample_host \<or> has_webkitAudioContext sample_host"
    "has_MediaRecorder sample_host" "\<not> reader_fails sample_host"
    by (simp_all add: sample_host_def)
  have "\<exists>url. snd (synthesizeSpeech offline sample_host ''hi'' None None) = Resolved url
            \<and> startsWith url ''data:''"
    using C1_synthesizeSpeech_outcomes [of sample_host offline "''hi''" None None] caps by blast
  moreover have "synthesizeWithBrowser sample_host ''hi'' = Resolved ''data:audio/wav;base64,''"
    by (simp add: synthesizeWithBrowser_def promise_of_def session_eval)
  moreover have "synthesizeWithBrowser (sample_host\<lparr>has_speechSynthesis := False\<rparr>) ''hi''
      = Rejected (Error ''Speech synthesis not supported in this browser'')"
    by (simp add: synthesizeWithBrowser_def promise_of_def session_eval)
  ultimately show ?thesis using caps by (simp add: offline_run)
qed

text \<open>
  The claim as it was stated fails here: speech synthesis is present, the text is not
  empty, both providers are out of reach, the reader fails, and the call rejects with the
  reader's error.
\<close>

theorem C1_rejects_with_capability_present:
  "has_speechSynthesis (sample_host\<lparr>reader_fails := True\<rparr>) \<and> ''hi'' \<noteq> []
   \<and> synthesizeSpeech offline (sample_host\<lparr>reader_fails := True\<rparr>) ''hi'' None None
      = ([ApiPost (mk_request ''hi'' None None), Browser ''hi''], Rejected ReaderError)
   \<and> ReaderError \<noteq> Error ''Speech synthesis not supported in this browser''"
proof -
  have "synthesizeWithBrowser (sample_host\<lparr>reader_fails := True\<rparr>) ''hi'' = Rejected ReaderError"
    by (simp add: synthesizeWithBrowser_def promise_of_def session_eval)
  then show ?thesis by (simp add: offline_run sample_host_def)
qed

text \<open>
  C2.  If the first provider answers with a truthy success flag and a non-empty audio
  payload, \<^verbatim>\<open>synthesizeSpeech\<close> makes that one call only (neither the edge
  function nor the browser capture is invoked) and resolves with the payload: unchanged
  when it already starts with \<^verbatim>\<open>data:\<close>, and behind the prefix
  \<^verbatim>\<open>data:audio/mpeg;base64,\<close> otherwise.
\<close>

theorem C2_provider_A_success:
  assumes "api_post b (mk_request text voiceId opts) = Some (Response True (Some a))"
      and "a \<noteq> []"
  shows "synthesizeSpeech b h text voiceId opts =
           ([ApiPost (mk_request text voiceId opts)],
            Resolved (if startsWith a ''data:'' then a else ''data:audio/mpeg;base64,'' @ a))"
  using assms by (simp add: synthesizeSpeech_def usable_def Let_def)

theorem C2_provider_A_success_witness:
  "synthesizeSpeech (offline\<lparr>api_post := (\<lambda>r. Some (Response True (Some ''QUJD'')))\<rparr>)
       sample_host ''hi'' (Some ''21m00Tcm4TlvDq8ikWAM'') None
     = ([ApiPost \<lparr>body_text = ''hi'', body_voice_id = Some ''21m00Tcm4TlvDq8ikWAM'',
                  body_stability = None, body_similarity_boost = None, body_style = None,
                  body_use_speaker_boost = None\<rparr>],
        Resolved ''data:audio/mpeg;base64,QUJD'')
   \<and> synthesizeSpeech (offline\<lparr>api_post := (\<lambda>r. Some (Response True (Some ''data:audio/ogg;base64,QUJD'')))\<rparr>)
       sample_host ''hi'' None None
     = ([ApiPost (mk_request ''hi'' None None)], Resolved ''data:audio/ogg;base64,QUJD'')"
  using C2_provider_A_success [of "offline\<lparr>api_post := (\<lambda>r. Some (Response True (Some ''QUJD'')))\<rparr>"
          "''hi''" "Some ''21m00Tcm4TlvDq8ikWAM''" None "''QUJD''" sample_host]
        C2_provider_A_success [of "offline\<lparr>api_post := (\<lambda>r. Some (Response True (Some ''data:audio/ogg;base64,QUJD'')))\<rparr>"
          "''hi''" None None "''data:audio/ogg;base64,QUJD''" sample_host]
  by (simp add: offline_def mk_request_def)

text \<open>
  C5.  The edge function is called only when both environment variables are set and not
  empty and neither contains \<^verbatim>\<open>your_\<close>.  When the first provider fails (the
  call throws, the success flag is falsy, or the audio payload is absent or empty) and
  that test does not hold, the only other call is the browser capture, which receives
  the text and nothing else.
\<close>

theorem C5_provider_B_guard:
  "((\<exists>url auth r. EdgeFetch url auth r \<in> set (fst (synthesizeSpeech b h text voiceId opts)))
      \<longrightarrow> (\<exists>u k. VITE_SUPABASE_URL b = Some u \<and> VITE_SUPABASE_ANON_KEY b = Some k
                 \<and> u \<noteq> [] \<and> k \<noteq> []
                 \<and> \<not> includes_str u ''your_'' \<and> \<not> includes_str k ''your_''))
   \<and> ((api_post b (mk_request text voiceId opts) = None
        \<or> (\<exists>d. api_post b (mk_request text voiceId opts) = Some d
               \<and> (\<not> success d \<or> audio d = None \<or> audio d = Some [])))
       \<and> \<not> (\<exists>u k. VITE_SUPABASE_URL b = Some u \<and> VITE_SUPABASE_ANON_KEY b = Some k
                 \<and> u \<noteq> [] \<and> k \<noteq> []
                 \<and> \<not> includes_str u ''your_'' \<and> \<not> includes_str k ''your_'')
       \<longrightarrow> synthesizeSpeech b h text voiceId opts =
             ([ApiPost (mk_request text voiceId opts), Browser text],
              synthesizeWithBrowser h text))"
proof -
  let ?cfg = "\<exists>u k. VITE_SUPABASE_URL b = Some u \<and> VITE_SUPABASE_ANON_KEY b = Some k
                 \<and> u \<noteq> [] \<and> k \<noteq> []
                 \<and> \<not> includes_str u ''your_'' \<and> \<not> includes_str k ''your_''"
  have cfg: "?cfg \<longleftrightarrow> (\<exists>u k. edge_target b = Some (u, k))"
    by (simp add: edge_target_Some_iff)
  have none: "edge_target b = None" if "\<not> ?cfg"
    using that cfg by (cases "edge_target b") auto
  note cases = synthesizeSpeech_cases [of b "text" voiceId opts h]
  have 1: ?cfg if "\<exists>url auth r. EdgeFetch url auth r \<in> set (fst (synthesizeSpeech b h text voiceId opts))"
    using cases that unfolding cfg by (elim disjE exE conjE) auto
  have 2: "synthesizeSpeech b h text voiceId opts =
             ([ApiPost (mk_request text voiceId opts), Browser text], synthesizeWithBrowser h text)"
    if "api_post b (mk_request text voiceId opts) = None
        \<or> (\<exists>d. api_post b (mk_request text voiceId opts) = Some d
               \<and> (\<not> success d \<or> audio d = None \<or> audio d = Some []))" and "\<not> ?cfg"
  proof -
    have "usable (api_post b (mk_request text voiceId opts)) = None"
      using that(1) by (simp add: usable_None_iff)
    moreover have "edge_target b = None" using that(2) by (rule none)
    ultimately show ?thesis by (simp add: synthesizeSpeech_def Let_def)
  qed
  from 1 2 show ?thesis by blast
qed

theorem C5_provider_B_guard_witness:
  "synthesizeSpeech
      (offline\<lparr>VITE_SUPABASE_URL := Some ''https://p.supabase.co'',
               VITE_SUPABASE_ANON_KEY := Some ''your_anon_key''\<rparr>) sample_host ''hi'' None None
     = ([ApiPost (mk_request ''hi'' None None), Browser ''hi''],
        synthesizeWithBrowser sample_host ''hi'')
   \<and> synthesizeSpeech
      (offline\<lparr>api_post := (\<lambda>r. Some (Response False (Some ''QUJD'')))\<rparr>) sample_host ''hi'' None None
     = ([ApiPost (mk_request ''hi'' None None), Browser ''hi''],
        synthesizeWithBrowser sample_host ''hi'')
   \<and> EdgeFetch ''https://p.supabase.co/functions/v1/voice-synthesis'' ''Bearer anon''
        (mk_request ''hi'' None None)
      \<in> set (fst (synthesizeSpeech
                    (offline\<lparr>VITE_SUPABASE_URL := Some ''https://p.supabase.co'',
                             VITE_SUPABASE_ANON_KEY := Some ''anon''\<rparr>) sample_host ''hi'' None None))
   \<and> \<not> includes_str ''https://p.supabase.co'' ''your_'' \<and> \<not> includes_str ''anon'' ''your_''
   \<and> includes_str ''your_anon_key'' ''your_''"
proof -
  have a: "synthesizeSpeech
      (offline\<lparr>VITE_SUPABASE_URL := Some ''https://p.supabase.co'',
               VITE_SUPABASE_ANON_KEY := Some ''your_anon_key''\<rparr>) sample_host ''hi'' None None
     = ([ApiPost (mk_request ''hi'' None None), Browser ''hi''],
        synthesizeWithBrowser sample_host ''hi'')"
    using C5_provider_B_guard [of "offline\<lparr>VITE_SUPABASE_URL := Some ''https://p.supabase.co'',
               VITE_SUPABASE_ANON_KEY := Some ''your_anon_key''\<rparr>" sample_host "''hi''" None None]
    by (simp add: offline_def)
  have b: "synthesizeSpeech
      (offline\<lparr>api_post := (\<lambda>r. Some (Response False (Some ''QUJD'')))\<rparr>) sample_host ''hi'' None None
     = ([ApiPost (mk_request ''hi'' None None), Browser ''hi''],
        synthesizeWithBrowser sample_host ''hi'')"
    using C5_provider_B_guard [of "offline\<lparr>api_post := (\<lambda>r. Some (Response False (Some ''QUJD'')))\<rparr>"
        sample_host "''hi''" None None]
    by (simp add: offline_def)
  have c: "EdgeFetch ''https://p.supabase.co/functions/v1/voice-synthesis'' ''Bearer anon''
        (mk_request ''hi'' None None)
      \<in> set (fst (synthesizeSpeech
                    (offline\<lparr>VITE_SUPABASE_URL := Some ''https://p.supabase.co'',
                             VITE_SUPABASE_ANON_KEY := Some ''anon''\<rparr>) sample_host ''hi'' None None))"
    by (simp add: synthesizeSpeech_def usable_def edge_target_def offline_def Let_def)
  from a b c show ?thesis by simp
qed

text \<open>
  C6.  The claim is that the second provider's success path leaves a payload that already
  is a data URL unchanged, as the first provider's does.  The source has no such test in
  the second tier: it always puts the prefix in front.  With the first provider down and
  the edge function answering with a payload that starts with \<^verbatim>\<open>data:\<close>,
  the result carries the prefix twice.
\<close>

theorem C6_provider_B_prefixes_twice:
  "synthesizeSpeech
     \<lparr>api_post = (\<lambda>r. None),
      VITE_SUPABASE_URL = Some ''https://p.supabase.co'',
      VITE_SUPABASE_ANON_KEY = Some ''anon'',
      edge_fetch = (\<lambda>u k r. Some (Response True (Some ''data:audio/mpeg;base64,QUJD'')))\<rparr>
     sample_host ''hi'' None None
   = ([ApiPost (mk_request ''hi'' None None),
       EdgeFetch ''https://p.supabase.co/functions/v1/voice-synthesis'' ''Bearer anon''
         (mk_request ''hi'' None None)],
      Resolved ''data:audio/mpeg;base64,data:audio/mpeg;base64,QUJD'')"
  by (simp add: synthesizeSpeech_def usable_def edge_target_def Let_def)



section \<open>The claims about the capture pipeline\<close>

text \<open>
  A delay that fits a signed 32-bit integer is the time of the timer's task.  One that
  does not is replaced: under the HTML standard a text of 21474837 code units, whose
  delay would be 2147483700, gets a timer that fires at once.
\<close>

lemma setTimeout_delay_fits: "n < 2 ^ 31 \<Longrightarrow> setTimeout_delay h n = n"
  by (simp add: setTimeout_delay_def)

lemma long_delay_wraps: "long_delay (21474837 * 100) = 0"
  by (simp add: long_delay_def)

text \<open>
  C3.  The claim is that, when the host never reports the end of the utterance, the
  timer at \<open>L * 100\<close> stops the recorder and the pipeline resolves at or before
  \<open>L * 100\<close>.  What holds, for a text of length \<open>L\<close> with \<open>L * 100 < 2 ^ 31\<close>: the
  timer's task runs at \<open>L * 100\<close> and finds the recorder still recording; in the final
  state \<^verbatim>\<open>stop()\<close> and \<^verbatim>\<open>close()\<close> were called once each, the recorder
  fired \<^verbatim>\<open>stop\<close> once and no exception escaped.  The promise is settled
  later than the claim says, in the task that ends the read: at \<open>L * 100\<close> plus the
  time the host takes to deliver the stop event and plus the time the read takes.  It
  is settled with the outcome of reading the \<^verbatim>\<open>audio/wav\<close> blob: resolved
  unless the reader fails, and rejected with the reader's error if it does.
\<close>

theorem C3_timeout_safeguard:
  assumes "synthesizeWithBrowser_session h text = Inr s"
      and "UtteranceEnd \<notin> snd ` set (timeline h)"
      and "length text * 100 < 2 ^ 31"
  shows "(length text * 100, Timeout)
           \<in> set (schedule (setTimeout_delay h (length text * 100)) (timeline h))
       \<and> rec_state (foldl (dispatch h) capture_start
                     (map (apsnd HostEvent)
                        (takeWhile (\<lambda>e. fst e \<le> length text * 100) (timeline h)))) = Recording
       \<and> rec_state s = Inactive \<and> context_closed s
       \<and> stop_calls s = 1 \<and> close_calls s = 1 \<and> stop_events s = 1 \<and> uncaught s = []
       \<and> (\<exists>b. blob_type b = ''audio/wav''
              \<and> settled s = Some (fileReader_result h b,
                                    length text * 100 + stop_latency h + reader_latency h)
              \<and> synthesizeWithBrowser h text = fileReader_result h b)
       \<and> (\<not> reader_fails h \<longrightarrow> (\<exists>url. synthesizeWithBrowser h text = Resolved url))
       \<and> (reader_fails h \<longrightarrow> synthesizeWithBrowser h text = Rejected ReaderError)"
proof -
  let ?d = "length text * 100"
  let ?pre = "takeWhile (\<lambda>e. fst e \<le> ?d) (timeline h)"
  let ?post = "dropWhile (\<lambda>e. fst e \<le> ?d) (timeline h)"
  let ?s1 = "foldl (dispatch h) capture_start (map (apsnd HostEvent) ?pre)"
  let ?s2 = "dispatch h ?s1 (?d, Timeout)"
  let ?s3 = "foldl (dispatch h) ?s2 (map (apsnd HostEvent) ?post)"
  have d: "setTimeout_delay h ?d = ?d" using assms(3) by (simp add: setTimeout_delay_def)
  have s: "s = drain h ?s3"
    using assms(1) by (simp add: session_Inr run_schedule d)
  have timer: "(?d, Timeout) \<in> set (schedule (setTimeout_delay h ?d) (timeline h))"
    by (simp add: schedule_def d)
  have pre: "UtteranceEnd \<notin> snd ` set ?pre"
    using assms(2) by (auto dest: set_takeWhileD)
  have post: "UtteranceEnd \<notin> snd ` set ?post"
    using assms(2) by (auto dest: set_dropWhileD)
  have f1: "fresh ?s1" using pre fresh_start by (rule audio_only_fresh)
  then have rec: "rec_state ?s1 = Recording" by (simp add: fresh_def)
  have c1: "stop_calls ?s1 = 0" "close_calls ?s1 = 0" "uncaught ?s1 = []"
    using audio_only_counters [OF pre, of h capture_start] by (simp_all add: capture_start_def)
  have s2: "?s2 = stop_and_close h ?d ?s1"
    using f1 rec by (simp add: dispatch_def run_due_fresh timeout_callback_def)
  have st2: "stopped_at h ?d ?s2" unfolding s2 using f1 by (rule fresh_stop)
  have c2: "rec_state ?s2 = Inactive" "context_closed ?s2" "stop_calls ?s2 = 1"
    "close_calls ?s2 = 1" "uncaught ?s2 = []"
    unfolding s2 using rec c1 by (simp_all add: stop_and_close_recording)
  have c3: "rec_state ?s3 = Inactive" "context_closed ?s3" "stop_calls ?s3 = 1"
    "close_calls ?s3 = 1" "uncaught ?s3 = []"
    using audio_only_counters [OF post, of h ?s2] c2 by simp_all
  have fields: "rec_state s = Inactive" "context_closed s" "stop_calls s = 1"
    "close_calls s = 1" "uncaught s = []"
    unfolding s using drain_counters [of h ?s3] c3 by simp_all
  have "stopped_at h ?d ?s3" using st2 by (rule run_stopped)
  from drain_stopped [OF this] obtain b where
    ev: "stop_events s = 1" and b: "blob_type b = ''audio/wav''"
    and se: "settled s = Some (fileReader_result h b, ?d + stop_latency h + reader_latency h)"
    unfolding s by blast
  have out: "synthesizeWithBrowser h text = fileReader_result h b"
    using assms(1) se by (simp add: synthesizeWithBrowser_def promise_of_def)
  have ex: "\<exists>b. blob_type b = ''audio/wav''
              \<and> settled s = Some (fileReader_result h b, ?d + stop_latency h + reader_latency h)
              \<and> synthesizeWithBrowser h text = fileReader_result h b"
    using b se out by blast
  have ok: "\<not> reader_fails h \<longrightarrow> (\<exists>url. synthesizeWithBrowser h text = Resolved url)"
    and bad: "reader_fails h \<longrightarrow> synthesizeWithBrowser h text = Rejected ReaderError"
    using out by (simp_all add: fileReader_result_def)
  from timer rec fields ev ex ok bad show ?thesis by simp
qed

theorem C3_timeout_safeguard_witness:
  "UtteranceEnd \<notin> snd ` set (timeline (sample_host\<lparr>timeline := [(50, Audio [1, 2, 3]), (900, Audio [4])],
                                                  stop_latency := 3, reader_latency := 5\<rparr>))
   \<and> length ''hi'' * 100 < (2 :: nat) ^ 31
   \<and> synthesizeWithBrowser_session
        (sample_host\<lparr>timeline := [(50, Audio [1, 2, 3]), (900, Audio [4])],
                     stop_latency := 3, reader_latency := 5\<rparr>) ''hi''
      = Inr \<lparr>rec_state = Inactive, gathered = [],
             chunks = [\<lparr>blob_type = ''audio/webm'', blob_bytes = [1, 2, 3]\<rparr>],
             context_closed = True, stop_calls = 1, close_calls = 1, stop_events = 1,
             settled = Some (Resolved ''data:audio/wav;base64,AAA'', 208), uncaught = [],
             stop_task = None, reader_task = None\<rparr>
   \<and> synthesizeWithBrowser
        (sample_host\<lparr>timeline := [(50, Audio [1, 2, 3]), (900, Audio [4])],
                     stop_latency := 3, reader_latency := 5\<rparr>) ''hi''
      = Resolved ''data:audio/wav;base64,AAA''"
proof -
  let ?h = "sample_host\<lparr>timeline := [(50, Audio [1, 2, 3]), (900, Audio [4])],
                       stop_latency := 3, reader_latency := 5\<rparr>"
  let ?s = "\<lparr>rec_state = Inactive, gathered = [],
             chunks = [\<lparr>blob_type = ''audio/webm'', blob_bytes = [1, 2, 3]\<rparr>],
             context_closed = True, stop_calls = 1, close_calls = 1, stop_events = 1,
             settled = Some (Resolved ''data:audio/wav;base64,AAA'', 208), uncaught = [],
             stop_task = None, reader_task = None\<rparr>"
  have a: "synthesizeWithBrowser_session ?h ''hi'' = Inr ?s"
    by (simp add: session_eval)
  have b: "UtteranceEnd \<notin> snd ` set (timeline ?h)" by (simp add: sample_host_def)
  have c: "length ''hi'' * 100 < (2 :: nat) ^ 31" by simp
  have nf: "\<not> reader_fails ?h" by (simp add: sample_host_def)
  from C3_timeout_safeguard [OF a b c] nf
  obtain url where "synthesizeWithBrowser ?h ''hi'' = Resolved url" by blast
  moreover have "synthesizeWithBrowser ?h ''hi'' = Resolved ''data:audio/wav;base64,AAA''"
    using a by (simp add: synthesizeWithBrowser_def promise_of_def)
  ultimately show ?thesis using a b c by simp
qed

text \<open>
  The claim as it was stated fails here.  On the text \<^verbatim>\<open>hi\<close> with no end of
  the utterance: with a failing reader the pipeline rejects instead of resolving; and
  with a read that takes 5 time units the promise is settled at 205, after
  \<open>2 * 100\<close>.
\<close>

theorem C3_resolves_counterexample:
  "UtteranceEnd \<notin> snd ` set (timeline (sample_host\<lparr>reader_fails := True\<rparr>))
   \<and> synthesizeWithBrowser_session (sample_host\<lparr>reader_fails := True\<rparr>) ''hi''
      = Inr \<lparr>rec_state = Inactive, gathered = [], chunks = [], context_closed = True,
             stop_calls = 1, close_calls = 1, stop_events = 1,
             settled = Some (Rejected ReaderError, 200), uncaught = [],
             stop_task = None, reader_task = None\<rparr>
   \<and> synthesizeWithBrowser (sample_host\<lparr>reader_fails := True\<rparr>) ''hi'' = Rejected ReaderError
   \<and> UtteranceEnd \<notin> snd ` set (timeline (sample_host\<lparr>reader_latency := 5\<rparr>))
   \<and> synthesizeWithBrowser_session (sample_host\<lparr>reader_latency := 5\<rparr>) ''hi''
      = Inr \<lparr>rec_state = Inactive, gathered = [], chunks = [], context_closed = True,
             stop_calls = 1, close_calls = 1, stop_events = 1,
             settled = Some (Resolved ''data:audio/wav;base64,'', 205), uncaught = [],
             stop_task = None, reader_task = None\<rparr>
   \<and> \<not> (205 :: nat) \<le> length ''hi'' * 100"
proof -
  have a: "synthesizeWithBrowser_session (sample_host\<lparr>reader_fails := True\<rparr>) ''hi''
      = Inr \<lparr>rec_state = Inactive, gathered = [], chunks = [], context_closed = True,
             stop_calls = 1, close_calls = 1, stop_events = 1,
             settled = Some (Rejected ReaderError, 200), uncaught = [],
             stop_task = None, reader_task = None\<rparr>"
    by (simp add: session_eval)
  have b: "synthesizeWithBrowser_session (sample_host\<lparr>reader_latency := 5\<rparr>) ''hi''
      = Inr \<lparr>rec_state = Inactive, gathered = [], chunks = [], context_closed = True,
             stop_calls = 1, close_calls = 1, stop_events = 1,
             settled = Some (Resolved ''data:audio/wav;base64,'', 205), uncaught = [],
             stop_task = None, reader_task = None\<rparr>"
    by (simp add: session_eval)
  have c: "synthesizeWithBrowser (sample_host\<lparr>reader_fails := True\<rparr>) ''hi'' = Rejected ReaderError"
    using a by (simp add: synthesizeWithBrowser_def promise_of_def)
  from a b c show ?thesis by (simp add: sample_host_def)
qed

text \<open>
  The timer's callback tests the recorder's state, so after a stop it changes nothing.
  The completion handler has no test: on a recorder that is already inactive it calls
  \<^verbatim>\<open>stop()\<close> again.
\<close>

lemma timeout_callback_after_stop: "rec_state s \<noteq> Recording \<Longrightarrow> timeout_callback h t s = s"
  by (simp add: timeout_callback_def)

lemma utterance_onend_after_stop:
  "rec_state s = Inactive \<Longrightarrow> stop_calls (utterance_onend h t s) = Suc (stop_calls s)"
  by (simp add: utterance_onend_def stop_and_close_inactive)

text \<open>
  C4.  The claim is that both stop paths test the recorder's state first, so that the
  second of them does nothing.  That holds for the timer after the completion handler
  (third fact below: one call of \<^verbatim>\<open>stop()\<close>, one of \<^verbatim>\<open>close()\<close>).
  It fails for the completion handler after the timer, on the text
  \<^verbatim>\<open>hi\<close> with the timer at 200 and the end of the utterance at 500: the
  handler calls \<^verbatim>\<open>stop()\<close> a second time on the inactive recorder, and then
  either calls \<^verbatim>\<open>close()\<close> a second time (first fact) or, where the host
  raises on an inactive recorder, ends with an uncaught exception (second fact).  The
  promise is settled once in each case.
\<close>

theorem C4_completion_after_timeout:
  "synthesizeWithBrowser_session (sample_host\<lparr>timeline := [(500, UtteranceEnd)]\<rparr>) ''hi''
     = Inr \<lparr>rec_state = Inactive, gathered = [], chunks = [], context_closed = True,
            stop_calls = 2, close_calls = 2, stop_events = 1,
            settled = Some (Resolved ''data:audio/wav;base64,'', 200), uncaught = [],
            stop_task = None, reader_task = None\<rparr>
   \<and> synthesizeWithBrowser_session
       (sample_host\<lparr>timeline := [(500, UtteranceEnd)], stop_inactive_throws := True\<rparr>) ''hi''
     = Inr \<lparr>rec_state = Inactive, gathered = [], chunks = [], context_closed = True,
            stop_calls = 2, close_calls = 1, stop_events = 1,
            settled = Some (Resolved ''data:audio/wav;base64,'', 200),
            uncaught = [InvalidStateError], stop_task = None, reader_task = None\<rparr>
   \<and> synthesizeWithBrowser_session (sample_host\<lparr>timeline := [(100, UtteranceEnd)]\<rparr>) ''hi''
     = Inr \<lparr>rec_state = Inactive, gathered = [], chunks = [], context_closed = True,
            stop_calls = 1, close_calls = 1, stop_events = 1,
            settled = Some (Resolved ''data:audio/wav;base64,'', 100), uncaught = [],
            stop_task = None, reader_task = None\<rparr>"
  by (simp add: session_eval)




section \<open>The claims about the voice catalog\<close>

text \<open>
  C7.  \<^verbatim>\<open>listVoices\<close> always resolves, and never with an empty list: when the
  remote call throws or gives no or an empty \<^verbatim>\<open>voices\<close> array it resolves
  with the built-in catalog, which has exactly four entries with distinct ids and the
  names Rachel, Domi, Bella and Antoni; a non-empty remote list is returned as it is.
\<close>

theorem C7_listVoices:
  "(\<exists>vs. listVoices r = Resolved vs \<and> vs \<noteq> [])
   \<and> ((r = None \<or> r = Some None \<or> r = Some (Some [])) \<longrightarrow> listVoices r = Resolved getMockVoices)
   \<and> (\<forall>vs. r = Some (Some vs) \<and> vs \<noteq> [] \<longrightarrow> listVoices r = Resolved vs)
   \<and> length getMockVoices = 4
   \<and> distinct (map voice_id getMockVoices)
   \<and> map name getMockVoices = [''Rachel'', ''Domi'', ''Bella'', ''Antoni'']"
  by (auto simp: listVoices_def getMockVoices_def split: option.splits)

theorem C7_listVoices_witness:
  "listVoices (Some (Some [])) = Resolved getMockVoices
   \<and> listVoices None = Resolved getMockVoices
   \<and> listVoices (Some None) = Resolved getMockVoices
   \<and> listVoices (Some (Some [\<lparr>voice_id = ''v1'', name = ''Ada'', preview_url = None,
                               description = None, category = None\<rparr>]))
      = Resolved [\<lparr>voice_id = ''v1'', name = ''Ada'', preview_url = None,
                   description = None, category = None\<rparr>]"
  using C7_listVoices [of "Some (Some [])"] C7_listVoices [of None] C7_listVoices [of "Some None"]
    C7_listVoices [of "Some (Some [\<lparr>voice_id = ''v1'', name = ''Ada'', preview_url = None,
                               description = None, category = None\<rparr>])"]
  by simp

section \<open>The claims about speech recognition\<close>

text \<open>A settled promise stays as it is, and no handler creates a recognition object.\<close>

lemma recognition_dispatch_settled:
  "rec_settled s = Some r \<Longrightarrow> rec_settled (recognition_dispatch s e) = Some r"
proof (cases e)
  case (ResultEvent results)
  assume "rec_settled s = Some r"
  then show ?thesis using ResultEvent
    by (cases "(results, s)" rule: recognition_onresult.cases) (simp_all add: rec_settle_def)
next
  case (ErrorEvent code)
  assume "rec_settled s = Some r"
  then show ?thesis using ErrorEvent by (simp add: recognition_onerror_def rec_settle_def)
qed

lemma recognition_dispatch_sessions: "sessions (recognition_dispatch s e) = sessions s"
proof (cases e)
  case (ResultEvent results)
  then show ?thesis
    by (cases "(results, s)" rule: recognition_onresult.cases) (simp_all add: rec_settle_def)
next
  case (ErrorEvent code)
  then show ?thesis by (simp add: recognition_onerror_def rec_settle_def)
qed

lemma recognition_run_settled:
  "rec_settled s = Some r \<Longrightarrow> rec_settled (foldl recognition_dispatch s evs) = Some r"
  by (induction evs arbitrary: s) (simp_all add: recognition_dispatch_settled)

lemma recognition_run_sessions: "sessions (foldl recognition_dispatch s evs) = sessions s"
  by (induction evs arbitrary: s) (simp_all add: recognition_dispatch_sessions)

text \<open>
  C8.  Without a recognition constructor the executor rejects with the
  unsupported-environment error at once: no recognition object exists, and no later event
  changes that.  With one, exactly one recognition object is created, with language
  \<^verbatim>\<open>en-US\<close>, \<^verbatim>\<open>interimResults\<close> false and
  \<^verbatim>\<open>maxAlternatives\<close> 1, and started; the promise is pending until an event
  arrives, resolves with the first alternative's transcript of the first result when the
  first event is a result event, and rejects with an error whose message ends with the
  session's error code when the first event is an error event.
\<close>

theorem C8_recognizeSpeech:
  "(\<not> isSpeechRecognitionSupported h \<longrightarrow>
       recognizeSpeech_start h =
         \<lparr>sessions = [],
          rec_settled = Some (Rejected (Error ''Speech recognition not supported in this browser'')),
          rec_uncaught = []\<rparr>
       \<and> recognizeSpeech h evs = recognizeSpeech_start h
       \<and> recognizeSpeech_result h evs =
           Rejected (Error ''Speech recognition not supported in this browser''))
   \<and> (isSpeechRecognitionSupported h \<longrightarrow>
       sessions (recognizeSpeech h evs) =
         [\<lparr>lang = ''en-US'', interimResults = False, maxAlternatives = 1, started = True\<rparr>]
       \<and> recognizeSpeech_result h [] = Pending
       \<and> (\<forall>transcript alts results rest.
             evs = ResultEvent ((transcript # alts) # results) # rest
             \<longrightarrow> recognizeSpeech_result h evs = Resolved transcript)
       \<and> (\<forall>code rest.
             evs = ErrorEvent code # rest
             \<longrightarrow> recognizeSpeech_result h evs
                   = Rejected (Error (''Speech recognition error: '' @ code))))"
proof (cases "isSpeechRecognitionSupported h")
  case False
  then show ?thesis
    by (simp add: isSpeechRecognitionSupported_def recognizeSpeech_start_def recognizeSpeech_def
          recognizeSpeech_result_def)
next
  case True
  let ?s0 = "\<lparr>sessions = [\<lparr>lang = ''en-US'', interimResults = False, maxAlternatives = 1,
                              started = True\<rparr>],
              rec_settled = None, rec_uncaught = []\<rparr>"
  have start: "recognizeSpeech_start h = ?s0"
    using True by (simp add: isSpeechRecognitionSupported_def recognizeSpeech_start_def)
  have run: "recognizeSpeech h es = foldl recognition_dispatch ?s0 es" for es
    by (simp add: recognizeSpeech_def start)
  have 1: "sessions (recognizeSpeech h evs) =
         [\<lparr>lang = ''en-US'', interimResults = False, maxAlternatives = 1, started = True\<rparr>]"
    by (simp add: run recognition_run_sessions)
  have 2: "recognizeSpeech_result h [] = Pending"
    by (simp add: recognizeSpeech_result_def run)
  have 3: "recognizeSpeech_result h evs = Resolved transcript"
    if "evs = ResultEvent ((transcript # alts) # results) # rest" for transcript alts results rest
  proof -
    have "rec_settled (recognition_dispatch ?s0 (ResultEvent ((transcript # alts) # results)))
            = Some (Resolved transcript)"
      by (simp add: rec_settle_def)
    from recognition_run_settled [OF this, of rest] show ?thesis
      by (simp add: recognizeSpeech_result_def run that)
  qed
  have 4: "recognizeSpeech_result h evs = Rejected (Error (''Speech recognition error: '' @ code))"
    if "evs = ErrorEvent code # rest" for code rest
  proof -
    have "rec_settled (recognition_dispatch ?s0 (ErrorEvent code))
            = Some (Rejected (Error (''Speech recognition error: '' @ code)))"
      by (simp add: recognition_onerror_def rec_settle_def)
    from recognition_run_settled [OF this, of rest] show ?thesis
      by (simp add: recognizeSpeech_result_def run that)
  qed
  from True 1 2 3 4 show ?thesis by blast
qed

theorem C8_recognizeSpeech_witness:
  "\<not> isSpeechRecognitionSupported (sample_host\<lparr>has_webkitSpeechRecognition := False\<rparr>)
   \<and> recognizeSpeech (sample_host\<lparr>has_webkitSpeechRecognition := False\<rparr>) [ResultEvent [[''hello'']]]
      = \<lparr>sessions = [],
         rec_settled = Some (Rejected (Error ''Speech recognition not supported in this browser'')),
         rec_uncaught = []\<rparr>
   \<and> isSpeechRecognitionSupported sample_host
   \<and> recognizeSpeech_result sample_host [ResultEvent [[''hello'', ''hallo''], [''world'']], ErrorEvent ''aborted'']
      = Resolved ''hello''
   \<and> recognizeSpeech_result sample_host [ErrorEvent ''no-speech'', ResultEvent [[''late'']]]
      = Rejected (Error ''Speech recognition error: no-speech'')"
proof -
  have a: "\<not> isSpeechRecognitionSupported (sample_host\<lparr>has_webkitSpeechRecognition := False\<rparr>)"
    and b: "isSpeechRecognitionSupported sample_host"
    by (simp_all add: isSpeechRecognitionSupported_def sample_host_def)
  from a C8_recognizeSpeech [of "sample_host\<lparr>has_webkitSpeechRecognition := False\<rparr>" "[ResultEvent [[''hello'']]]"]
  have 1: "recognizeSpeech (sample_host\<lparr>has_webkitSpeechRecognition := False\<rparr>) [ResultEvent [[''hello'']]]
      = \<lparr>sessions = [],
         rec_settled = Some (Rejected (Error ''Speech recognition not supported in this browser'')),
         rec_uncaught = []\<rparr>"
    by simp
  from b C8_recognizeSpeech [of sample_host "[ResultEvent [[''hello'', ''hallo''], [''world'']], ErrorEvent ''aborted'']"]
  have 2: "recognizeSpeech_result sample_host [ResultEvent [[''hello'', ''hallo''], [''world'']], ErrorEvent ''aborted'']
      = Resolved ''hello''"
    by simp
  from b C8_recognizeSpeech [of sample_host "[ErrorEvent ''no-speech'', ResultEvent [[''late'']]]"]
  have 3: "recognizeSpeech_result sample_host [ErrorEvent ''no-speech'', ResultEvent [[''late'']]]
      = Rejected (Error ''Speech recognition error: no-speech'')"
    by simp
  from a b 1 2 3 show ?thesis by simp
qed

end
